theory Spec2Isabelle
  imports Complex_Main
begin

section \<open>Numbers\<close>

text \<open>
  Quotes arrive as JSON, so every numeric input is a finite number and is modelled as a
  \<open>real\<close>; binary rounding of the IEEE doubles is not modelled. A division whose
  denominator may be zero does not fail in the source: it yields \<open>NaN\<close> or an
  infinity; a date that does not parse gives \<open>NaN\<close> as well. Such results are values
  of \<open>jsnum\<close>, and the operations the source applies to them afterwards are lifted to
  it. Denominators are never the negative zero.
\<close>

datatype jsnum = Num real | PosInfinity | NegInfinity | NaN

definition js_div :: "real \<Rightarrow> real \<Rightarrow> jsnum" where
  "js_div a b =
     (if b \<noteq> 0 then Num (a / b)
      else if a = 0 then NaN
      else if 0 < a then PosInfinity
      else NegInfinity)"

text \<open>Multiplication and division of a \<open>jsnum\<close> by a finite constant.\<close>

fun js_times :: "jsnum \<Rightarrow> real \<Rightarrow> jsnum" where
  "js_times (Num x) c = Num (x * c)"
| "js_times NaN c = NaN"
| "js_times PosInfinity c =
     (if c = 0 then NaN else if 0 < c then PosInfinity else NegInfinity)"
| "js_times NegInfinity c =
     (if c = 0 then NaN else if 0 < c then NegInfinity else PosInfinity)"

fun js_over :: "jsnum \<Rightarrow> real \<Rightarrow> jsnum" where
  "js_over (Num x) c = js_div x c"
| "js_over NaN c = NaN"
| "js_over PosInfinity c = (if 0 \<le> c then PosInfinity else NegInfinity)"
| "js_over NegInfinity c = (if 0 \<le> c then NegInfinity else PosInfinity)"

text \<open>\<open>Math.round\<close>: the nearest integer, ties towards plus infinity.\<close>

definition Math_round :: "real \<Rightarrow> real" where
  "Math_round x = of_int \<lfloor>x + 1 / 2\<rfloor>"

fun js_round :: "jsnum \<Rightarrow> jsnum" where
  "js_round (Num x) = Num (Math_round x)"
| "js_round n = n"

fun js_abs :: "jsnum \<Rightarrow> jsnum" where
  "js_abs (Num x) = Num \<bar>x\<bar>"
| "js_abs NaN = NaN"
| "js_abs n = PosInfinity"

text \<open>Comparisons of a \<open>jsnum\<close> with a finite number; every comparison with \<open>NaN\<close> is false.\<close>

fun js_lt :: "jsnum \<Rightarrow> real \<Rightarrow> bool" where
  "js_lt (Num x) c = (x < c)"
| "js_lt NegInfinity c = True"
| "js_lt n c = False"

fun js_le :: "jsnum \<Rightarrow> real \<Rightarrow> bool" where
  "js_le (Num x) c = (x \<le> c)"
| "js_le NegInfinity c = True"
| "js_le n c = False"

fun js_gt :: "jsnum \<Rightarrow> real \<Rightarrow> bool" where
  "js_gt (Num x) c = (c < x)"
| "js_gt PosInfinity c = True"
| "js_gt n c = False"

fun js_ge :: "jsnum \<Rightarrow> real \<Rightarrow> bool" where
  "js_ge (Num x) c = (c \<le> x)"
| "js_ge PosInfinity c = True"
| "js_ge n c = False"

text \<open>\<open>Math.max\<close> and \<open>Math.min\<close>: \<open>NaN\<close> if either argument is.\<close>

fun js_max :: "jsnum \<Rightarrow> jsnum \<Rightarrow> jsnum" where
  "js_max NaN b = NaN"
| "js_max a NaN = NaN"
| "js_max PosInfinity b = PosInfinity"
| "js_max a PosInfinity = PosInfinity"
| "js_max NegInfinity b = b"
| "js_max a NegInfinity = a"
| "js_max (Num x) (Num y) = Num (max x y)"

fun js_min :: "jsnum \<Rightarrow> jsnum \<Rightarrow> jsnum" where
  "js_min NaN b = NaN"
| "js_min a NaN = NaN"
| "js_min NegInfinity b = NegInfinity"
| "js_min a NegInfinity = NegInfinity"
| "js_min PosInfinity b = b"
| "js_min a PosInfinity = a"
| "js_min (Num x) (Num y) = Num (min x y)"

text \<open>Truthiness of a number: zero and \<open>NaN\<close> are falsy.\<close>

fun js_truthy :: "jsnum \<Rightarrow> bool" where
  "js_truthy (Num x) = (x \<noteq> 0)"
| "js_truthy NaN = False"
| "js_truthy n = True"

fun is_finite :: "jsnum \<Rightarrow> bool" where
  "is_finite (Num x) = True"
| "is_finite n = False"

text \<open>\<open>x || null\<close> on a number and on a string.\<close>

definition num_or_null :: "real \<Rightarrow> real option" where
  "num_or_null x = (if x = 0 then None else Some x)"

definition str_or_null :: "string \<Rightarrow> string option" where
  "str_or_null s = (if s = [] then None else Some s)"

text \<open>A number has at most two decimal places.\<close>

definition two_decimals :: "real \<Rightarrow> bool" where
  "two_decimals x = (x * 100 = of_int \<lfloor>x * 100\<rfloor>)"

section \<open>Types (types/index.ts)\<close>

datatype MoneynessCategory = deep_itm | itm | atm | otm | deep_otm

datatype SignalStrength = high | medium | low

datatype option_kind = call | put

datatype quote_type = stock | option | etf | index

section \<open>Calculations (utils/calculations.ts)\<close>

definition calculatePremium :: "real \<Rightarrow> real \<Rightarrow> real \<Rightarrow> real" where
  "calculatePremium lastPrice volume contractSize = lastPrice * volume * contractSize"

definition calculateBidAskSpread :: "real \<Rightarrow> real \<Rightarrow> real" where
  "calculateBidAskSpread bid ask =
     (if bid \<le> 0 \<or> ask \<le> 0 then 0
      else let mid = (bid + ask) / 2 in ((ask - bid) / mid) * 100)"

definition calculateMoneyness :: "real \<Rightarrow> real \<Rightarrow> option_kind \<Rightarrow> jsnum" where
  "calculateMoneyness strike underlyingPrice optionType =
     (if optionType = call
      then js_times (js_div (strike - underlyingPrice) underlyingPrice) 100
      else js_times (js_div (underlyingPrice - strike) underlyingPrice) 100)"

definition categorizeMoneyness :: "jsnum \<Rightarrow> MoneynessCategory" where
  "categorizeMoneyness moneynessPercent =
     (let abs = js_abs moneynessPercent in
      if js_lt moneynessPercent (- 10) then deep_itm
      else if js_lt moneynessPercent (- 2) then itm
      else if js_le abs 2 then atm
      else if js_le moneynessPercent 10 then otm
      else deep_otm)"

definition calculateSignalStrength :: "real \<Rightarrow> real \<Rightarrow> jsnum \<Rightarrow> jsnum \<Rightarrow> SignalStrength" where
  "calculateSignalStrength volumeOiRatio premium dte moneynessPercent =
     (let absMoneyness = js_abs moneynessPercent in
      if volumeOiRatio \<ge> 5 \<and> premium \<ge> 100000 \<and> js_le dte 30 \<and> js_ge absMoneyness 10 then high
      else if volumeOiRatio \<ge> 3 \<and> premium \<ge> 25000 \<and> js_le dte 45 then medium
      else low)"

definition calculateMidPrice :: "real \<Rightarrow> real \<Rightarrow> real" where
  "calculateMidPrice bid ask = (if bid \<le> 0 \<or> ask \<le> 0 then 0 else (bid + ask) / 2)"

record pnl_result =
  r_pnl :: real
  r_pnlPct :: jsnum

definition calculatePnL :: "real \<Rightarrow> real \<Rightarrow> real \<Rightarrow> real \<Rightarrow> pnl_result" where
  "calculatePnL entryPrice exitPrice quantity contractSize =
     (let pnl = (exitPrice - entryPrice) * quantity * contractSize;
          pnlPct = js_times (js_div (exitPrice - entryPrice) entryPrice) 100
      in \<lparr>r_pnl = Math_round (pnl * 100) / 100,
          r_pnlPct = js_over (js_round (js_times pnlPct 100)) 100\<rparr>)"

text \<open>
  The threshold configuration, and the result of the criteria check. The reason is a
  formatted string in the source, read by nobody; here it is the failed check with the
  numbers the string interpolates.
\<close>

record SignalConfig =
  minPremium :: real
  minVolumeOiRatio :: real
  minAbsoluteVolume :: real
  maxDte :: real
  minOtmPercent :: real

datatype reject_reason =
    VolumeBelowMinimum real real
  | OpenInterestZero
  | RatioBelowMinimum real real
  | PremiumBelowMinimum real real
  | DteOutsideRange jsnum real

record criteria_check =
  c_meets :: bool
  c_reason :: "reject_reason option"

definition meetsUnusualCriteria ::
  "real \<Rightarrow> real \<Rightarrow> real \<Rightarrow> jsnum \<Rightarrow> SignalConfig \<Rightarrow> criteria_check" where
  "meetsUnusualCriteria volume openInterest premium dte config =
     (if volume < minAbsoluteVolume config
      then \<lparr>c_meets = False, c_reason = Some (VolumeBelowMinimum volume (minAbsoluteVolume config))\<rparr>
      else if openInterest \<le> 0
      then \<lparr>c_meets = False, c_reason = Some OpenInterestZero\<rparr>
      else let volumeOiRatio = volume / openInterest in
        if volumeOiRatio < minVolumeOiRatio config
        then \<lparr>c_meets = False, c_reason = Some (RatioBelowMinimum volumeOiRatio (minVolumeOiRatio config))\<rparr>
        else if premium < minPremium config
        then \<lparr>c_meets = False, c_reason = Some (PremiumBelowMinimum premium (minPremium config))\<rparr>
        else if js_gt dte (maxDte config) \<or> js_lt dte 0
        then \<lparr>c_meets = False, c_reason = Some (DteOutsideRange dte (maxDte config))\<rparr>
        else \<lparr>c_meets = True, c_reason = None\<rparr>)"

section \<open>Quotes and signals (types/index.ts)\<close>

text \<open>
  Of a Tradier quote, the fields that the detector and the trade monitor read. An
  optional field of the interface is an \<open>option\<close>; so is \<open>volume\<close>, which the
  detector compares with \<open>undefined\<close>.
\<close>

record TradierGreeks =
  g_delta :: real
  g_gamma :: real
  g_theta :: real
  g_vega :: real
  g_rho :: real
  g_phi :: real
  g_bid_iv :: real
  g_mid_iv :: real
  g_ask_iv :: real
  g_smv_vol :: real
  g_updated_at :: string

record TradierQuote =
  q_symbol :: string
  q_description :: string
  q_exch :: string
  q_type :: quote_type
  q_last :: real
  q_change :: real
  q_volume :: "real option"
  q_bid :: real
  q_ask :: real
  q_underlying :: "string option"
  q_strike :: "real option"
  q_change_percentage :: real
  q_trade_date :: real
  q_bidsize :: real
  q_asksize :: real
  q_open_interest :: "real option"
  q_contract_size :: "real option"
  q_expiration_date :: "string option"
  q_option_type :: "option_kind option"
  q_greeks :: "TradierGreeks option"

record UnusualSignal =
  s_id :: "string option"
  s_symbol :: string
  s_ticker :: string
  s_description :: "string option"
  s_option_type :: option_kind
  s_strike :: real
  s_expiration_date :: string
  s_dte :: jsnum
  s_contract_size :: real
  s_volume :: real
  s_open_interest :: real
  s_volume_oi_ratio :: real
  s_premium :: real
  s_last_price :: real
  s_bid :: "real option"
  s_ask :: "real option"
  s_bid_size :: "real option"
  s_ask_size :: "real option"
  s_bid_ask_spread_pct :: "real option"
  s_underlying_price :: real
  s_underlying_change :: "real option"
  s_underlying_change_pct :: "real option"
  s_delta :: "real option"
  s_gamma :: "real option"
  s_theta :: "real option"
  s_vega :: "real option"
  s_rho :: "real option"
  s_phi :: "real option"
  s_implied_volatility :: "real option"
  s_greeks_updated_at :: "string option"
  s_moneyness :: "jsnum option"
  s_moneyness_category :: "MoneynessCategory option"
  s_signal_strength :: "SignalStrength option"
  s_detected_at :: "int option"
  s_trade_date :: "real option"
  s_exchange :: "string option"

section \<open>Signal detector (services/signalDetector.ts)\<close>

text \<open>\<open>greeks?.f || null\<close>.\<close>

definition greek_or_null :: "TradierGreeks option \<Rightarrow> (TradierGreeks \<Rightarrow> real) \<Rightarrow> real option" where
  "greek_or_null greeks f = (case greeks of None \<Rightarrow> None | Some g \<Rightarrow> num_or_null (f g))"

text \<open>
  \<open>calculateDTE\<close> reads the wall clock and parses the date with a library; it is a
  parameter here, giving the number of days from now to the expiration date, or \<open>NaN\<close>
  for a date that does not parse.
  The block that compares the moneyness with \<open>minOtmPercent\<close> is empty in the source
  and has no counterpart. The signal is built without \<open>id\<close> and \<open>detected_at\<close>, which
  the database assigns.
\<close>

definition analyzeQuote ::
  "SignalConfig \<Rightarrow> (string \<Rightarrow> jsnum) \<Rightarrow> TradierQuote \<Rightarrow> TradierQuote \<Rightarrow> UnusualSignal option" where
  "analyzeQuote config calculateDTE optionQuote underlyingQuote =
     (if q_type optionQuote \<noteq> option then None
      else (case q_option_type optionQuote of None \<Rightarrow> None | Some option_type \<Rightarrow>
      if q_type underlyingQuote \<noteq> stock \<and> q_type underlyingQuote \<noteq> etf then None
      else (case q_expiration_date optionQuote of None \<Rightarrow> None | Some expiration_date \<Rightarrow>
      (case q_strike optionQuote of None \<Rightarrow> None | Some strike \<Rightarrow>
      (case q_volume optionQuote of None \<Rightarrow> None | Some volume \<Rightarrow>
      (case q_open_interest optionQuote of None \<Rightarrow> None | Some open_interest \<Rightarrow>
      (case q_underlying optionQuote of None \<Rightarrow> None | Some underlying \<Rightarrow>
      if expiration_date = [] \<or> strike = 0 \<or> underlying = [] then None
      else
        let last = q_last optionQuote;
            bid = q_bid optionQuote;
            ask = q_ask optionQuote;
            greeks = q_greeks optionQuote;
            contract_size = (case q_contract_size optionQuote of None \<Rightarrow> 100 | Some c \<Rightarrow> c);
            dte = calculateDTE expiration_date;
            premium = calculatePremium last volume contract_size;
            volumeOiRatio = (if open_interest > 0 then volume / open_interest else 0);
            bidAskSpread = (if bid \<noteq> 0 \<and> ask \<noteq> 0 then Some (calculateBidAskSpread bid ask) else None);
            moneyness = calculateMoneyness strike (q_last underlyingQuote) option_type;
            moneynessCategory = categorizeMoneyness moneyness;
            signalStrength = calculateSignalStrength volumeOiRatio premium dte moneyness;
            criteriaCheck = meetsUnusualCriteria volume open_interest premium dte config
        in if \<not> c_meets criteriaCheck then None
           else Some \<lparr>
             s_id = None,
             s_symbol = q_symbol optionQuote,
             s_ticker = underlying,
             s_description = str_or_null (q_description optionQuote),
             s_option_type = option_type,
             s_strike = strike,
             s_expiration_date = expiration_date,
             s_dte = dte,
             s_contract_size = contract_size,
             s_volume = volume,
             s_open_interest = open_interest,
             s_volume_oi_ratio = Math_round (volumeOiRatio * 100) / 100,
             s_premium = Math_round (premium * 100) / 100,
             s_last_price = last,
             s_bid = num_or_null bid,
             s_ask = num_or_null ask,
             s_bid_size = num_or_null (q_bidsize optionQuote),
             s_ask_size = num_or_null (q_asksize optionQuote),
             s_bid_ask_spread_pct = bidAskSpread,
             s_underlying_price = q_last underlyingQuote,
             s_underlying_change = num_or_null (q_change underlyingQuote),
             s_underlying_change_pct = num_or_null (q_change_percentage underlyingQuote),
             s_delta = greek_or_null greeks g_delta,
             s_gamma = greek_or_null greeks g_gamma,
             s_theta = greek_or_null greeks g_theta,
             s_vega = greek_or_null greeks g_vega,
             s_rho = greek_or_null greeks g_rho,
             s_phi = greek_or_null greeks g_phi,
             s_implied_volatility =
               (case greek_or_null greeks g_mid_iv of Some v \<Rightarrow> Some v
                | None \<Rightarrow> greek_or_null greeks g_smv_vol),
             s_greeks_updated_at =
               (case greeks of None \<Rightarrow> None | Some g \<Rightarrow> str_or_null (g_updated_at g)),
             s_moneyness = Some (js_over (js_round (js_times moneyness 100)) 100),
             s_moneyness_category = Some moneynessCategory,
             s_signal_strength = Some signalStrength,
             s_detected_at = None,
             s_trade_date = num_or_null (q_trade_date optionQuote),
             s_exchange = str_or_null (q_exch optionQuote)\<rparr>)))))))"

section \<open>Paper trades (types/index.ts)\<close>

text \<open>Times are milliseconds since the epoch, as \<open>Date.getTime\<close> gives them.\<close>

datatype trade_direction = long | short

datatype trade_status = status_open | status_closed | status_expired

datatype exit_reason =
  reason_manual | reason_time_limit | reason_expired | reason_stop_loss | reason_take_profit

record PaperTrade =
  t_id :: "string option"
  t_signal_id :: string
  t_direction :: trade_direction
  t_quantity :: real
  t_entry_price :: real
  t_entry_time :: "int option"
  t_entry_underlying_price :: "real option"
  t_exit_price :: "real option"
  t_exit_time :: "int option"
  t_exit_underlying_price :: "real option"
  t_exit_reason :: "exit_reason option"
  t_pnl :: "real option"
  t_pnl_pct :: "jsnum option"
  t_max_pnl :: "real option"
  t_max_pnl_pct :: "jsnum option"
  t_min_pnl :: "real option"
  t_min_pnl_pct :: "jsnum option"
  t_status :: trade_status
  t_notes :: "string option"
  t_created_at :: "int option"
  t_updated_at :: "int option"

section \<open>The paper_trades table\<close>

text \<open>
  The storage collaborator, after the \<open>SupabaseService\<close> methods as the integration
  guide lists them and the \<open>paper_trades\<close> table of the SQL schema: a table of rows with
  \<open>id\<close> as primary key and a unique \<open>signal_id\<close>. A method that throws in the source
  returns \<open>None\<close>. The id and the time that the database assigns to a new row are
  parameters. A row keeps every number as it was written; column precision, the foreign
  key to the signals and transport failures are not modelled.
\<close>

type_synonym store = "PaperTrade list"

definition getTradeBySignalId :: "store \<Rightarrow> string \<Rightarrow> PaperTrade option" where
  "getTradeBySignalId st signalId =
     (case filter (\<lambda>t. t_signal_id t = signalId) st of [t] \<Rightarrow> Some t | _ \<Rightarrow> None)"

definition createPaperTrade :: "store \<Rightarrow> string \<Rightarrow> int \<Rightarrow> PaperTrade \<Rightarrow> (PaperTrade \<times> store) option" where
  "createPaperTrade st newId now trade =
     (if filter (\<lambda>t. t_id t = Some newId \<or> t_signal_id t = t_signal_id trade) st \<noteq> [] then None
      else let row = trade\<lparr>t_id := Some newId, t_entry_time := Some now,
                           t_created_at := Some now, t_updated_at := Some now\<rparr>
           in Some (row, st @ [row]))"

definition updatePaperTrade ::
  "store \<Rightarrow> int \<Rightarrow> string \<Rightarrow> (PaperTrade \<Rightarrow> PaperTrade) \<Rightarrow> (PaperTrade \<times> store) option" where
  "updatePaperTrade st now tradeId updates =
     (case filter (\<lambda>t. t_id t = Some tradeId) st of
        [t] \<Rightarrow>
          let row = (updates t)\<lparr>t_updated_at := Some now\<rparr>
          in Some (row, map (\<lambda>r. if t_id r = Some tradeId then row else r) st)
      | _ \<Rightarrow> None)"

text \<open>
  \<open>getSignalsByTicker\<close>, over the rows of \<open>unusual_signals\<close>: the rows of that ticker,
  latest first, up to the limit.
\<close>

definition detected_ms :: "UnusualSignal \<Rightarrow> int" where
  "detected_ms s = (case s_detected_at s of None \<Rightarrow> 0 | Some n \<Rightarrow> n)"

definition getSignalsByTicker :: "UnusualSignal list \<Rightarrow> string \<Rightarrow> nat \<Rightarrow> UnusualSignal list" where
  "getSignalsByTicker table ticker limit =
     take limit (sort_key (\<lambda>s. - detected_ms s) (filter (\<lambda>s. s_ticker s = ticker) table))"

definition entry_ms :: "PaperTrade \<Rightarrow> int" where
  "entry_ms t = (case t_entry_time t of None \<Rightarrow> 0 | Some n \<Rightarrow> n)"

definition getOpenTrades :: "store \<Rightarrow> PaperTrade list" where
  "getOpenTrades st = sort_key (\<lambda>t. - entry_ms t) (filter (\<lambda>t. t_status t = status_open) st)"

section \<open>Paper trading service (services/paperTrading.ts)\<close>

datatype exit_strategy = strategy_time_limit | strategy_manual

record PaperTradeConfig =
  autoEnter :: bool
  exitStrategy :: exit_strategy
  timeLimitHours :: real
  defaultQuantity :: real

definition default_config :: PaperTradeConfig where
  "default_config =
     \<lparr>autoEnter = True, exitStrategy = strategy_time_limit, timeLimitHours = 24, defaultQuantity = 1\<rparr>"

text \<open>\<open>a || b\<close> where \<open>a\<close> is a nullable number: null, zero and \<open>NaN\<close> give \<open>b\<close>.\<close>

definition num_or :: "real option \<Rightarrow> real \<Rightarrow> real" where
  "num_or a b = (case a of None \<Rightarrow> b | Some x \<Rightarrow> if x = 0 then b else x)"

definition jsnum_or :: "jsnum option \<Rightarrow> jsnum \<Rightarrow> jsnum" where
  "jsnum_or a b = (case a of None \<Rightarrow> b | Some n \<Rightarrow> if js_truthy n then n else b)"

definition strength_text :: "SignalStrength option \<Rightarrow> string" where
  "strength_text s =
     (case s of None \<Rightarrow> ''null'' | Some high \<Rightarrow> ''high'' | Some medium \<Rightarrow> ''medium''
      | Some low \<Rightarrow> ''low'')"

text \<open>
  \<open>enterTrade\<close>. A signal without id gives an insert without \<open>signal_id\<close>, which the
  table refuses; the service catches every exception and returns null.
\<close>

definition enterTrade ::
  "PaperTradeConfig \<Rightarrow> string \<Rightarrow> int \<Rightarrow> store \<Rightarrow> UnusualSignal \<Rightarrow> PaperTrade option \<times> store" where
  "enterTrade config newId now st signal =
     (case (case s_id signal of None \<Rightarrow> None
            | Some sid \<Rightarrow> if sid = [] then None else getTradeBySignalId st sid) of
        Some existingTrade \<Rightarrow> (Some existingTrade, st)
      | None \<Rightarrow>
          let entryPrice =
                (case s_bid signal of None \<Rightarrow> s_last_price signal
                 | Some bid \<Rightarrow>
                     (case s_ask signal of None \<Rightarrow> s_last_price signal
                      | Some ask \<Rightarrow>
                          if bid \<noteq> 0 \<and> ask \<noteq> 0 then calculateMidPrice bid ask
                          else s_last_price signal))
          in (case s_id signal of None \<Rightarrow> (None, st)
              | Some sid \<Rightarrow>
                  let trade = \<lparr>
                        t_id = None,
                        t_signal_id = sid,
                        t_direction = long,
                        t_quantity = defaultQuantity config,
                        t_entry_price = entryPrice,
                        t_entry_time = None,
                        t_entry_underlying_price = Some (s_underlying_price signal),
                        t_exit_price = None,
                        t_exit_time = None,
                        t_exit_underlying_price = None,
                        t_exit_reason = None,
                        t_pnl = None,
                        t_pnl_pct = None,
                        t_max_pnl = None,
                        t_max_pnl_pct = None,
                        t_min_pnl = None,
                        t_min_pnl_pct = None,
                        t_status = status_open,
                        t_notes = Some (''Auto-entered from '' @ strength_text (s_signal_strength signal)
                                        @ '' strength signal''),
                        t_created_at = None,
                        t_updated_at = None\<rparr>
                  in (case createPaperTrade st newId now trade of
                        None \<Rightarrow> (None, st)
                      | Some (insertedTrade, st') \<Rightarrow> (Some insertedTrade, st'))))"

definition updateTrade :: "store \<Rightarrow> int \<Rightarrow> PaperTrade \<Rightarrow> real \<Rightarrow> real \<Rightarrow> store" where
  "updateTrade st now trade currentPrice underlyingPrice =
     (let r = calculatePnL (t_entry_price trade) currentPrice (t_quantity trade) 100;
          maxPnl = max (num_or (t_max_pnl trade) (r_pnl r)) (r_pnl r);
          minPnl = min (num_or (t_min_pnl trade) (r_pnl r)) (r_pnl r);
          maxPnlPct = js_max (jsnum_or (t_max_pnl_pct trade) (r_pnlPct r)) (r_pnlPct r);
          minPnlPct = js_min (jsnum_or (t_min_pnl_pct trade) (r_pnlPct r)) (r_pnlPct r)
      in (case t_id trade of None \<Rightarrow> st
          | Some tradeId \<Rightarrow>
              (case updatePaperTrade st now tradeId
                      (\<lambda>t. t\<lparr>t_max_pnl := Some maxPnl, t_min_pnl := Some minPnl,
                              t_max_pnl_pct := Some maxPnlPct, t_min_pnl_pct := Some minPnlPct\<rparr>) of
                 None \<Rightarrow> st
               | Some (row, st') \<Rightarrow> st')))"

definition exitTrade ::
  "store \<Rightarrow> int \<Rightarrow> PaperTrade \<Rightarrow> real \<Rightarrow> real \<Rightarrow> exit_reason \<Rightarrow> PaperTrade option \<times> store" where
  "exitTrade st now trade exitPrice underlyingPrice reason =
     (let r = calculatePnL (t_entry_price trade) exitPrice (t_quantity trade) 100
      in (case t_id trade of None \<Rightarrow> (None, st)
          | Some tradeId \<Rightarrow>
              (case updatePaperTrade st now tradeId
                      (\<lambda>t. t\<lparr>t_exit_price := Some exitPrice,
                              t_exit_time := Some now,
                              t_exit_underlying_price := Some underlyingPrice,
                              t_exit_reason := Some reason,
                              t_pnl := Some (r_pnl r),
                              t_pnl_pct := Some (r_pnlPct r),
                              t_status := status_closed\<rparr>) of
                 None \<Rightarrow> (None, st)
               | Some (updatedTrade, st') \<Rightarrow> (Some updatedTrade, st'))))"

text \<open>
  One monitoring pass. The pass reads the signals with \<open>getSignalsByTicker('', 1000)\<close>
  from the rows of \<open>unusual_signals\<close>. The market-data lookup (\<open>None\<close> when it throws
  or yields no quote object), the date parser (\<open>None\<close> for a date that does not parse,
  whose time is \<open>NaN\<close>) and the clock, read once per trade, are parameters. The pass
  threads the table of trades and the list of exits made (one entry for each
  \<open>exitTrade\<close> that returned a trade, where the source prints that it closed the
  trade).
\<close>

record monitor_env =
  m_unusual_signals :: "UnusualSignal list"
  m_getQuotes :: "string \<Rightarrow> TradierQuote list option"
  m_date_ms :: "string \<Rightarrow> int option"
  m_now :: int

type_synonym pass_state = "store \<times> (string option \<times> exit_reason) list"

definition exit_logged ::
  "pass_state \<Rightarrow> int \<Rightarrow> PaperTrade \<Rightarrow> real \<Rightarrow> real \<Rightarrow> exit_reason \<Rightarrow> pass_state" where
  "exit_logged ps now trade price underlyingPrice reason =
     (case exitTrade (fst ps) now trade price underlyingPrice reason of
        (None, st') \<Rightarrow> (st', snd ps)
      | (Some updatedTrade, st') \<Rightarrow> (st', snd ps @ [(t_id trade, reason)]))"

definition monitorTrade :: "PaperTradeConfig \<Rightarrow> monitor_env \<Rightarrow> PaperTrade \<Rightarrow> pass_state \<Rightarrow> pass_state" where
  "monitorTrade config env trade ps =
     (case find (\<lambda>s. s_id s = Some (t_signal_id trade))
             (getSignalsByTicker (m_unusual_signals env) [] 1000) of
        None \<Rightarrow> ps
      | Some signal \<Rightarrow>
          (case m_getQuotes env (s_symbol signal) of
             None \<Rightarrow> ps
           | Some [] \<Rightarrow> ps
           | Some (quote # others) \<Rightarrow>
               let currentPrice =
                     (if q_bid quote \<noteq> 0 \<and> q_ask quote \<noteq> 0
                      then calculateMidPrice (q_bid quote) (q_ask quote)
                      else q_last quote)
               in (case m_getQuotes env (s_ticker signal) of
                     None \<Rightarrow> ps
                   | Some underlyingQuotes \<Rightarrow>
                       let underlyingPrice =
                             (case underlyingQuotes of [] \<Rightarrow> 0 | u # us \<Rightarrow> q_last u);
                           now = m_now env;
                           ps1 = (updateTrade (fst ps) now trade currentPrice underlyingPrice, snd ps);
                           ps2 =
                             (if exitStrategy config = strategy_time_limit
                              then (case t_entry_time trade of
                                      None \<Rightarrow> ps1
                                    | Some entryTime \<Rightarrow>
                                        let hoursOpen = of_int (now - entryTime) / (1000 * 60 * 60)
                                        in if hoursOpen \<ge> timeLimitHours config
                                           then exit_logged ps1 now trade currentPrice underlyingPrice
                                                  reason_time_limit
                                           else ps1)
                              else ps1);
                           daysToExpiry =
                             (case m_date_ms env (s_expiration_date signal) of
                                None \<Rightarrow> NaN
                              | Some expiry \<Rightarrow>
                                  Num (of_int ((expiry - now) div (1000 * 60 * 60 * 24))))
                       in if js_le daysToExpiry 0
                          then exit_logged ps2 now trade currentPrice underlyingPrice reason_expired
                          else ps2)))"

definition monitorOpenTrades :: "PaperTradeConfig \<Rightarrow> monitor_env \<Rightarrow> store \<Rightarrow> pass_state" where
  "monitorOpenTrades config env st =
     (let openTrades = getOpenTrades st
      in if openTrades = [] then (st, [])
         else fold (monitorTrade config env) openTrades (st, []))"

section \<open>Performance summary\<close>

text \<open>
  The view \<open>performance_summary\<close> of the schema, over the rows of the table. An
  aggregate over no row is null. \<open>ROUND(x, 2)\<close> rounds half away from zero. The column
  \<open>avg_pnl_pct\<close>, which the service does not read, is left out.
\<close>

definition sql_round2 :: "real \<Rightarrow> real" where
  "sql_round2 x = sgn x * of_int \<lfloor>\<bar>x\<bar> * 100 + 1 / 2\<rfloor> / 100"

record summary_row =
  v_total_trades :: int
  v_winning_trades :: int
  v_losing_trades :: int
  v_breakeven_trades :: int
  v_avg_pnl :: "real option"
  v_max_pnl :: "real option"
  v_min_pnl :: "real option"
  v_total_pnl :: "real option"
  v_win_rate_pct :: "real option"

definition closed_pnl :: "(real \<Rightarrow> bool) \<Rightarrow> PaperTrade \<Rightarrow> bool" where
  "closed_pnl P t =
     (t_status t = status_closed \<and> (case t_pnl t of None \<Rightarrow> False | Some p \<Rightarrow> P p))"

definition performance_summary :: "store \<Rightarrow> summary_row" where
  "performance_summary st =
     (let closed = filter (\<lambda>t. t_status t = status_closed) st;
          pnls = List.map_filter t_pnl closed;
          winning = int (length (filter (closed_pnl (\<lambda>p. p > 0)) st))
      in \<lparr>v_total_trades = int (length st),
          v_winning_trades = winning,
          v_losing_trades = int (length (filter (closed_pnl (\<lambda>p. p < 0)) st)),
          v_breakeven_trades = int (length (filter (closed_pnl (\<lambda>p. p = 0)) st)),
          v_avg_pnl =
            (if pnls = [] then None
             else Some (sql_round2 (sum_list pnls / of_nat (length pnls)))),
          v_max_pnl = (case pnls of [] \<Rightarrow> None | p # ps \<Rightarrow> Some (sql_round2 (fold max ps p))),
          v_min_pnl = (case pnls of [] \<Rightarrow> None | p # ps \<Rightarrow> Some (sql_round2 (fold min ps p))),
          v_total_pnl = (if pnls = [] then None else Some (sql_round2 (sum_list pnls))),
          v_win_rate_pct =
            (if closed = [] then None
             else Some (sql_round2 (of_int winning / of_nat (length closed) * 100)))\<rparr>)"

record performance_stats =
  totalTrades :: int
  openTrades :: int
  closedTrades :: int
  winningTrades :: int
  losingTrades :: int
  winRate :: real
  totalPnL :: real
  avgPnL :: real
  bestTrade :: real
  worstTrade :: real

text \<open>\<open>getPerformanceStats\<close>, given what \<open>getPerformanceSummary\<close> returned (null on an error).\<close>

definition getPerformanceStats :: "summary_row option \<Rightarrow> performance_stats" where
  "getPerformanceStats summary =
     (let total = (case summary of None \<Rightarrow> 0 | Some s \<Rightarrow> v_total_trades s);
          winning = (case summary of None \<Rightarrow> 0 | Some s \<Rightarrow> v_winning_trades s);
          losing = (case summary of None \<Rightarrow> 0 | Some s \<Rightarrow> v_losing_trades s)
      in \<lparr>totalTrades = total,
          openTrades = total - winning - losing,
          closedTrades = winning + losing,
          winningTrades = winning,
          losingTrades = losing,
          winRate = (case summary of None \<Rightarrow> 0 | Some s \<Rightarrow> num_or (v_win_rate_pct s) 0),
          totalPnL = (case summary of None \<Rightarrow> 0 | Some s \<Rightarrow> num_or (v_total_pnl s) 0),
          avgPnL = (case summary of None \<Rightarrow> 0 | Some s \<Rightarrow> num_or (v_avg_pnl s) 0),
          bestTrade = (case summary of None \<Rightarrow> 0 | Some s \<Rightarrow> num_or (v_max_pnl s) 0),
          worstTrade = (case summary of None \<Rightarrow> 0 | Some s \<Rightarrow> num_or (v_min_pnl s) 0)\<rparr>)"

definition performance_of :: "store \<Rightarrow> performance_stats" where
  "performance_of st = getPerformanceStats (Some (performance_summary st))"

section \<open>Example data\<close>

text \<open>The thresholds that \<open>loadConfig\<close> uses when the environment sets none.\<close>

definition default_signal_config :: SignalConfig where
  "default_signal_config =
     \<lparr>minPremium = 25000, minVolumeOiRatio = 3, minAbsoluteVolume = 100, maxDte = 45,
      minOtmPercent = 10\<rparr>"

definition example_underlying :: TradierQuote where
  "example_underlying =
     \<lparr>q_symbol = ''NVDA'', q_description = ''NVIDIA Corp'', q_exch = ''Q'', q_type = stock,
      q_last = 170, q_change = 2, q_volume = Some 1000000, q_bid = 169.9, q_ask = 170.1,
      q_underlying = None, q_strike = None, q_change_percentage = 1.19,
      q_trade_date = 1757000000000, q_bidsize = 3, q_asksize = 4, q_open_interest = None,
      q_contract_size = None, q_expiration_date = None, q_option_type = None,
      q_greeks = None\<rparr>"

definition example_option :: TradierQuote where
  "example_option =
     \<lparr>q_symbol = ''NVDA250919C00175000'', q_description = ''NVDA Sep 19 2025 $175.00 Call'',
      q_exch = ''Z'', q_type = option, q_last = 12.345, q_change = 0, q_volume = Some 1000,
      q_bid = 12.3, q_ask = 12.4, q_underlying = Some ''NVDA'', q_strike = Some 175,
      q_change_percentage = 0, q_trade_date = 1757000000000, q_bidsize = 10, q_asksize = 12,
      q_open_interest = Some 100, q_contract_size = Some 100,
      q_expiration_date = Some ''2025-09-19'', q_option_type = Some call, q_greeks = None\<rparr>"

text \<open>
  A clock on which the contract above has 14 days left and every other date is past; one
  string is no date.
\<close>

definition example_dte :: "string \<Rightarrow> jsnum" where
  "example_dte e =
     (if e = ''2025-09-19'' then Num 14 else if e = ''soon'' then NaN else Num (- 1))"

text \<open>The same contract with an expiration date that does not parse.\<close>

definition undated_option :: TradierQuote where
  "undated_option = example_option\<lparr>q_expiration_date := Some ''soon''\<rparr>"

text \<open>The same contract quoted with a negative bid, and quoted with no price at all.\<close>

definition negative_bid_option :: TradierQuote where
  "negative_bid_option = example_option\<lparr>q_bid := - 1, q_ask := 1\<rparr>"

definition unpriced_option :: TradierQuote where
  "unpriced_option = example_option\<lparr>q_last := 0, q_bid := 0, q_ask := 0\<rparr>"

definition no_premium_config :: SignalConfig where
  "no_premium_config = default_signal_config\<lparr>minPremium := 0\<rparr>"

text \<open>The signal of \<open>example_option\<close> as stored, with the identity the database gave it.\<close>

definition stored_signal :: UnusualSignal where
  "stored_signal =
     \<lparr>s_id = Some ''s1'', s_symbol = ''NVDA250919C00175000'', s_ticker = ''NVDA'',
      s_description = Some ''NVDA Sep 19 2025 $175.00 Call'', s_option_type = call,
      s_strike = 175, s_expiration_date = ''2025-09-19'', s_dte = Num 14, s_contract_size = 100,
      s_volume = 1000, s_open_interest = 100, s_volume_oi_ratio = 10, s_premium = 1234500,
      s_last_price = 12.345, s_bid = Some 12.3, s_ask = Some 12.4, s_bid_size = Some 10,
      s_ask_size = Some 12, s_bid_ask_spread_pct = Some (200 / 247), s_underlying_price = 170,
      s_underlying_change = Some 2, s_underlying_change_pct = Some 1.19, s_delta = None,
      s_gamma = None, s_theta = None, s_vega = None, s_rho = None, s_phi = None,
      s_implied_volatility = None, s_greeks_updated_at = None,
      s_moneyness = Some (Num 2.94), s_moneyness_category = Some otm,
      s_signal_strength = Some medium, s_detected_at = Some 0,
      s_trade_date = Some 1757000000000, s_exchange = Some ''Z''\<rparr>"

text \<open>A trade on that signal, entered at time 0 at 2.00 a contract.\<close>

definition open_trade :: PaperTrade where
  "open_trade =
     \<lparr>t_id = Some ''t1'', t_signal_id = ''s1'', t_direction = long, t_quantity = 1,
      t_entry_price = 2, t_entry_time = Some 0, t_entry_underlying_price = Some 170,
      t_exit_price = None, t_exit_time = None, t_exit_underlying_price = None,
      t_exit_reason = None, t_pnl = None, t_pnl_pct = None, t_max_pnl = None,
      t_max_pnl_pct = None, t_min_pnl = None, t_min_pnl_pct = None, t_status = status_open,
      t_notes = None, t_created_at = Some 0, t_updated_at = Some 0\<rparr>"

text \<open>The trade after a monitoring pass at time 1000 that saw the entry price again.\<close>

definition flat_trade :: PaperTrade where
  "flat_trade =
     open_trade\<lparr>t_max_pnl := Some 0, t_min_pnl := Some 0, t_max_pnl_pct := Some (Num 0),
                t_min_pnl_pct := Some (Num 0), t_updated_at := Some 1000\<rparr>"

text \<open>The trade closed by hand at time 1000 at 3.00 a contract.\<close>

definition closed_trade :: PaperTrade where
  "closed_trade =
     open_trade\<lparr>t_exit_price := Some 3, t_exit_time := Some 1000,
                t_exit_underlying_price := Some 171, t_exit_reason := Some reason_manual,
                t_pnl := Some 100, t_pnl_pct := Some (Num 50), t_status := status_closed,
                t_updated_at := Some 1000\<rparr>"

text \<open>Three closed trades with P/L 100, -50 and 0.\<close>

definition won_trade :: PaperTrade where
  "won_trade = closed_trade"

definition lost_trade :: PaperTrade where
  "lost_trade =
     closed_trade\<lparr>t_id := Some ''t2'', t_signal_id := ''s2'', t_exit_price := Some 1.5,
                  t_pnl := Some (- 50), t_pnl_pct := Some (Num (- 25))\<rparr>"

definition even_trade :: PaperTrade where
  "even_trade =
     closed_trade\<lparr>t_id := Some ''t3'', t_signal_id := ''s3'', t_exit_price := Some 2,
                  t_pnl := Some 0, t_pnl_pct := Some (Num 0)\<rparr>"

text \<open>
  A monitoring pass 100000 seconds after the entry, past the 24 hours of the time limit,
  when the contract has expired as well; the signal of the trade is stored and the market
  quotes both symbols.
\<close>

definition expired_env :: monitor_env where
  "expired_env =
     \<lparr>m_unusual_signals = [stored_signal],
      m_getQuotes = (\<lambda>symbols.
         if symbols = ''NVDA250919C00175000'' then Some [example_option]
         else if symbols = ''NVDA'' then Some [example_underlying]
         else None),
      m_date_ms = (\<lambda>d. Some 1000),
      m_now = 100000000\<rparr>"

text \<open>
  The same pass over a table in which the signal of the trade was stored with an empty
  ticker, and a market that has no quote for the empty symbol.
\<close>

definition blank_ticker_env :: monitor_env where
  "blank_ticker_env =
     \<lparr>m_unusual_signals = [stored_signal\<lparr>s_ticker := []\<rparr>],
      m_getQuotes = (\<lambda>symbols.
         if symbols = ''NVDA250919C00175000'' then Some [example_option] else Some []),
      m_date_ms = (\<lambda>d. Some 1000),
      m_now = 100000000\<rparr>"

section \<open>Helper lemmas\<close>

lemma categorizeMoneyness_Num:
  "categorizeMoneyness (Num p) =
     (if p < - 10 then deep_itm else if p < - 2 then itm
      else if p \<le> 2 then atm else if p \<le> 10 then otm else deep_otm)"
  by (auto simp: categorizeMoneyness_def Let_def)

lemma two_decimals_round: "two_decimals (Math_round y / 100)"
  by (simp add: two_decimals_def Math_round_def)

lemma meetsUnusualCriteria_iff:
  "c_meets (meetsUnusualCriteria volume openInterest premium dte config) \<longleftrightarrow>
     volume \<ge> minAbsoluteVolume config \<and> openInterest > 0 \<and>
     volume / openInterest \<ge> minVolumeOiRatio config \<and> premium \<ge> minPremium config \<and>
     \<not> js_gt dte (maxDte config) \<and> \<not> js_lt dte 0"
  by (auto simp: meetsUnusualCriteria_def Let_def)

lemma dte_in_range:
  "\<not> js_gt (Num d) m \<and> \<not> js_lt (Num d) 0 \<longleftrightarrow> 0 \<le> d \<and> d \<le> m"
  by auto

lemma analyzeQuote_eq_None_iff:
  "analyzeQuote config calculateDTE oq uq = None \<longleftrightarrow>
     \<not> (q_type oq = option \<and> q_option_type oq \<noteq> None \<and>
     (q_type uq = stock \<or> q_type uq = etf) \<and>
     (\<exists>e k v oi u. q_expiration_date oq = Some e \<and> q_strike oq = Some k \<and>
        q_volume oq = Some v \<and> q_open_interest oq = Some oi \<and> q_underlying oq = Some u \<and>
        e \<noteq> [] \<and> k \<noteq> 0 \<and> u \<noteq> [] \<and>
        c_meets (meetsUnusualCriteria v oi
          (calculatePremium (q_last oq) v (case q_contract_size oq of None \<Rightarrow> 100 | Some c \<Rightarrow> c))
          (calculateDTE e) config)))"
  by (auto simp: analyzeQuote_def Let_def split: option.splits)

section \<open>Signal detection\<close>

text \<open>
  What holds of every quote for which \<open>analyzeQuote\<close> returns a signal: the volume is at
  least the minimum absolute volume, the open interest is positive, volume over open
  interest is at least the minimum ratio, the premium is at least the minimum premium,
  and the days to expiration are neither above the maximum nor below 0; when they are a
  number, they lie between 0 and the maximum. From such a quote, changing one input so
  that one check fails gives no signal: a volume below the minimum, an open interest of
  zero or less, a volume or an open interest that puts the ratio below its minimum, a
  last price that puts the premium below its minimum, or an expiration date whose days to
  expiration are negative or above the maximum.
\<close>

lemma analyzeQuote_checks:
  assumes "analyzeQuote config calculateDTE oq uq \<noteq> None"
  shows "\<exists>v oi e. q_volume oq = Some v \<and> q_open_interest oq = Some oi \<and>
           q_expiration_date oq = Some e \<and>
           v \<ge> minAbsoluteVolume config \<and>
           oi > 0 \<and>
           v / oi \<ge> minVolumeOiRatio config \<and>
           calculatePremium (q_last oq) v
             (case q_contract_size oq of None \<Rightarrow> 100 | Some c \<Rightarrow> c) \<ge> minPremium config \<and>
           \<not> js_gt (calculateDTE e) (maxDte config) \<and> \<not> js_lt (calculateDTE e) 0 \<and>
           (\<forall>d. calculateDTE e = Num d \<longrightarrow> 0 \<le> d \<and> d \<le> maxDte config) \<and>
           (\<forall>v'. v' < minAbsoluteVolume config \<longrightarrow>
              analyzeQuote config calculateDTE (oq\<lparr>q_volume := Some v'\<rparr>) uq = None) \<and>
           (\<forall>oi'. oi' \<le> 0 \<longrightarrow>
              analyzeQuote config calculateDTE (oq\<lparr>q_open_interest := Some oi'\<rparr>) uq = None) \<and>
           (\<forall>v'. v' / oi < minVolumeOiRatio config \<longrightarrow>
              analyzeQuote config calculateDTE (oq\<lparr>q_volume := Some v'\<rparr>) uq = None) \<and>
           (\<forall>oi'. 0 < oi' \<and> v / oi' < minVolumeOiRatio config \<longrightarrow>
              analyzeQuote config calculateDTE (oq\<lparr>q_open_interest := Some oi'\<rparr>) uq = None) \<and>
           (\<forall>last'. calculatePremium last' v
                (case q_contract_size oq of None \<Rightarrow> 100 | Some c \<Rightarrow> c) < minPremium config \<longrightarrow>
              analyzeQuote config calculateDTE (oq\<lparr>q_last := last'\<rparr>) uq = None) \<and>
           (\<forall>e'. js_lt (calculateDTE e') 0 \<or> js_gt (calculateDTE e') (maxDte config) \<longrightarrow>
              analyzeQuote config calculateDTE (oq\<lparr>q_expiration_date := Some e'\<rparr>) uq = None)"
proof -
  from assms obtain e k v oi u where
    f: "q_expiration_date oq = Some e" "q_strike oq = Some k" "q_volume oq = Some v"
       "q_open_interest oq = Some oi" "q_underlying oq = Some u"
    and m: "c_meets (meetsUnusualCriteria v oi
          (calculatePremium (q_last oq) v (case q_contract_size oq of None \<Rightarrow> 100 | Some c \<Rightarrow> c))
          (calculateDTE e) config)"
    unfolding analyzeQuote_eq_None_iff by auto
  from m have c: "v \<ge> minAbsoluteVolume config" "oi > 0" "v / oi \<ge> minVolumeOiRatio config"
      "calculatePremium (q_last oq) v
             (case q_contract_size oq of None \<Rightarrow> 100 | Some c \<Rightarrow> c) \<ge> minPremium config"
      "\<not> js_gt (calculateDTE e) (maxDte config)" "\<not> js_lt (calculateDTE e) 0"
    by (simp_all add: meetsUnusualCriteria_iff)
  from c(5,6) have d: "\<forall>d. calculateDTE e = Num d \<longrightarrow> 0 \<le> d \<and> d \<le> maxDte config"
    by auto
  have r: "\<And>oq'. (\<And>e' k' v' oi' u'. q_expiration_date oq' = Some e' \<Longrightarrow> q_volume oq' = Some v' \<Longrightarrow>
             q_open_interest oq' = Some oi' \<Longrightarrow>
             \<not> c_meets (meetsUnusualCriteria v' oi'
                (calculatePremium (q_last oq') v' (case q_contract_size oq' of None \<Rightarrow> 100 | Some c \<Rightarrow> c))
                (calculateDTE e') config)) \<Longrightarrow>
           analyzeQuote config calculateDTE oq' uq = None"
    unfolding analyzeQuote_eq_None_iff by auto
  have 1: "analyzeQuote config calculateDTE (oq\<lparr>q_volume := Some v'\<rparr>) uq = None"
    if "v' < minAbsoluteVolume config" for v'
    using that by (intro r) (simp add: meetsUnusualCriteria_iff)
  have 2: "analyzeQuote config calculateDTE (oq\<lparr>q_open_interest := Some oi'\<rparr>) uq = None"
    if "oi' \<le> 0" for oi'
    using that by (intro r) (simp add: meetsUnusualCriteria_iff)
  have 3: "analyzeQuote config calculateDTE (oq\<lparr>q_volume := Some v'\<rparr>) uq = None"
    if "v' / oi < minVolumeOiRatio config" for v'
    using that f by (intro r) (simp add: meetsUnusualCriteria_iff)
  have 4: "analyzeQuote config calculateDTE (oq\<lparr>q_open_interest := Some oi'\<rparr>) uq = None"
    if "0 < oi' \<and> v / oi' < minVolumeOiRatio config" for oi'
    using that f by (intro r) (simp add: meetsUnusualCriteria_iff)
  have 5: "analyzeQuote config calculateDTE (oq\<lparr>q_last := last'\<rparr>) uq = None"
    if "calculatePremium last' v
                (case q_contract_size oq of None \<Rightarrow> 100 | Some c \<Rightarrow> c) < minPremium config" for last'
    using that f by (intro r) (simp add: meetsUnusualCriteria_iff)
  have 6: "analyzeQuote config calculateDTE (oq\<lparr>q_expiration_date := Some e'\<rparr>) uq = None"
    if "js_lt (calculateDTE e') 0 \<or> js_gt (calculateDTE e') (maxDte config)" for e'
    using that f by (intro r) (auto simp add: meetsUnusualCriteria_iff)
  from f c d 1 2 3 4 5 6 show ?thesis by blast
qed

lemma example_option_accepted:
  "analyzeQuote default_signal_config example_dte example_option example_underlying =
     Some (stored_signal\<lparr>s_id := None, s_detected_at := None\<rparr>)"
  by (simp add: analyzeQuote_def meetsUnusualCriteria_def default_signal_config_def
      example_dte_def example_option_def example_underlying_def calculatePremium_def Let_def
      Math_round_def stored_signal_def calculateMoneyness_def js_div_def
      categorizeMoneyness_def calculateSignalStrength_def calculateBidAskSpread_def
      num_or_null_def str_or_null_def greek_or_null_def)

text \<open>
  C1. In the source the check of the days to expiration lets \<open>NaN\<close> through (both
  comparisons with \<open>NaN\<close> are false). For the example contract with an expiration date
  that does not parse, \<open>analyzeQuote\<close> returns a signal whose days to expiration are
  \<open>NaN\<close>, which are neither at least 0 nor at most the maximum.
\<close>

theorem analyzeQuote_unparseable_date:
  "analyzeQuote default_signal_config example_dte undated_option example_underlying =
     Some (stored_signal\<lparr>s_id := None, s_detected_at := None, s_expiration_date := ''soon'',
             s_dte := NaN, s_signal_strength := Some low\<rparr>) \<and>
   example_dte ''soon'' = NaN \<and>
   \<not> js_ge NaN 0 \<and>
   \<not> js_le NaN (maxDte default_signal_config)"
  by (simp add: analyzeQuote_def meetsUnusualCriteria_def default_signal_config_def
      example_dte_def example_option_def example_underlying_def calculatePremium_def Let_def
      Math_round_def stored_signal_def calculateMoneyness_def js_div_def
      categorizeMoneyness_def calculateSignalStrength_def calculateBidAskSpread_def
      num_or_null_def str_or_null_def greek_or_null_def undated_option_def)

lemma calculatePnL_zero_entry:
  "r_pnlPct (calculatePnL 0 exitPrice quantity contractSize) =
     (if exitPrice = 0 then NaN else if 0 < exitPrice then PosInfinity else NegInfinity)"
  by (simp add: calculatePnL_def js_div_def Let_def)

lemma js_round2_Num:
  "js_over (js_round (js_times (Num x) 100)) 100 = Num (Math_round (x * 100) / 100)"
  by (simp add: js_div_def)

lemma moneyness_rounded:
  assumes "u \<noteq> 0"
  shows "js_over (js_round (js_times (calculateMoneyness k u ot) 100)) 100 =
           Num (Math_round ((if ot = call then (k - u) / u else (u - k) / u) * 100 * 100) / 100)"
proof -
  from assms have "calculateMoneyness k u ot =
      Num ((if ot = call then (k - u) / u else (u - k) / u) * 100)"
    by (simp add: calculateMoneyness_def js_div_def)
  then show ?thesis
    by (simp only: js_round2_Num)
qed

section \<open>Moneyness categories\<close>

text \<open>
  C6. \<open>categorizeMoneyness\<close> puts every real percent value in exactly one of the five
  categories: \<open>deep_itm\<close> iff the value is below -10, \<open>itm\<close> iff it is at least -10 and
  below -2, \<open>atm\<close> iff it lies between -2 and 2 inclusive, \<open>otm\<close> iff it is above 2 and at
  most 10, \<open>deep_otm\<close> iff it is above 10. In particular -10 is \<open>itm\<close>, -2 and 2 are
  \<open>atm\<close>, and 10 is \<open>otm\<close>.
\<close>

theorem categorizeMoneyness_partition:
  "(categorizeMoneyness (Num p) = deep_itm \<longleftrightarrow> p < - 10) \<and>
   (categorizeMoneyness (Num p) = itm \<longleftrightarrow> - 10 \<le> p \<and> p < - 2) \<and>
   (categorizeMoneyness (Num p) = atm \<longleftrightarrow> - 2 \<le> p \<and> p \<le> 2) \<and>
   (categorizeMoneyness (Num p) = otm \<longleftrightarrow> 2 < p \<and> p \<le> 10) \<and>
   (categorizeMoneyness (Num p) = deep_otm \<longleftrightarrow> 10 < p) \<and>
   categorizeMoneyness (Num (- 10)) = itm \<and>
   categorizeMoneyness (Num (- 2)) = atm \<and>
   categorizeMoneyness (Num 2) = atm \<and>
   categorizeMoneyness (Num 10) = otm"
  by (simp add: categorizeMoneyness_Num)

section \<open>Profit and loss\<close>

text \<open>
  C4, as stated, fails: with an entry price of 0, an exit price of 5 and one contract,
  \<open>calculatePnL\<close> rejects nothing; it returns a result whose percentage is infinite.
\<close>

theorem calculatePnL_zero_entry_counterexample:
  "calculatePnL 0 5 1 100 = \<lparr>r_pnl = 500, r_pnlPct = PosInfinity\<rparr>"
  by (simp add: calculatePnL_def js_div_def Math_round_def)

text \<open>
  C4, amended. \<open>calculatePnL\<close> rejects no input: for every entry price, zero included,
  it returns a result whose dollar P/L is (exit - entry) * quantity * multiplier rounded
  to 2 decimal places; when the entry price is not zero, the percentage is the finite
  number (exit - entry) / entry * 100 rounded to 2 decimal places.
\<close>

theorem calculatePnL_returns:
  "r_pnl (calculatePnL entryPrice exitPrice quantity contractSize) =
     Math_round ((exitPrice - entryPrice) * quantity * contractSize * 100) / 100 \<and>
   (entryPrice \<noteq> 0 \<longrightarrow>
      r_pnlPct (calculatePnL entryPrice exitPrice quantity contractSize) =
        Num (Math_round ((exitPrice - entryPrice) / entryPrice * 100 * 100) / 100))"
  by (simp add: calculatePnL_def js_div_def Let_def)

theorem calculatePnL_returns_witness:
  "r_pnl (calculatePnL 100 150 1 100) = 5000 \<and> r_pnlPct (calculatePnL 100 150 1 100) = Num 50 \<and>
   r_pnl (calculatePnL 0 5 1 100) = 500"
  using calculatePnL_returns [of 100 150 1 100] calculatePnL_returns [of 0 5 1 100]
  by (simp add: Math_round_def)

section \<open>The fields of a signal\<close>

text \<open>
  C7, as stated, fails: for the example quote, with a last price of 12.345 and a bid and
  ask of 12.30 and 12.40, the signal carries the last price 12.345 and the spread percent
  200/247 as they are; neither has two decimal places.
\<close>

theorem analyzeQuote_unrounded_counterexample:
  "map_option s_last_price
     (analyzeQuote default_signal_config example_dte example_option example_underlying) =
     Some 12.345 \<and>
   \<not> two_decimals 12.345 \<and>
   map_option s_bid_ask_spread_pct
     (analyzeQuote default_signal_config example_dte example_option example_underlying) =
     Some (Some (200 / 247)) \<and>
   \<not> two_decimals (200 / 247)"
  by (simp add: example_option_accepted stored_signal_def two_decimals_def)

text \<open>
  C7, amended. For every pair for which \<open>analyzeQuote\<close> succeeds, every field of the
  signal is set from the quotes: symbol, underlying, option type, strike, expiration
  date, volume and open interest are the quote's, the contract size is the quote's or 100
  when the quote has none, the days to expiration are those of the expiration date, and
  the category and the strength are computed from the unrounded metrics. The
  volume/open-interest ratio and the premium are the computed values rounded to 2 decimal
  places, and so is the moneyness percent when the underlying price is not zero. The last
  price and the underlying price are copied unrounded; bid, ask, sizes, changes, greeks,
  description, trade date and exchange are the quote's value, or null when that is zero
  or empty; the bid/ask spread percent is the unrounded \<open>calculateBidAskSpread\<close> of a
  non-zero bid and ask, and null otherwise. The signal has no id and no detection time.
\<close>

theorem analyzeQuote_rounding:
  assumes "analyzeQuote config calculateDTE oq uq = Some s"
  shows "s_id s = None \<and>
         s_symbol s = q_symbol oq \<and>
         q_underlying oq = Some (s_ticker s) \<and>
         s_description s = str_or_null (q_description oq) \<and>
         q_option_type oq = Some (s_option_type s) \<and>
         q_strike oq = Some (s_strike s) \<and>
         q_expiration_date oq = Some (s_expiration_date s) \<and>
         s_dte s = calculateDTE (s_expiration_date s) \<and>
         s_contract_size s = (case q_contract_size oq of None \<Rightarrow> 100 | Some c \<Rightarrow> c) \<and>
         q_volume oq = Some (s_volume s) \<and>
         q_open_interest oq = Some (s_open_interest s) \<and>
         s_volume_oi_ratio s = Math_round (s_volume s / s_open_interest s * 100) / 100 \<and>
         two_decimals (s_volume_oi_ratio s) \<and>
         s_premium s =
           Math_round (calculatePremium (q_last oq) (s_volume s) (s_contract_size s) * 100) / 100 \<and>
         two_decimals (s_premium s) \<and>
         s_last_price s = q_last oq \<and>
         s_bid s = num_or_null (q_bid oq) \<and>
         s_ask s = num_or_null (q_ask oq) \<and>
         s_bid_size s = num_or_null (q_bidsize oq) \<and>
         s_ask_size s = num_or_null (q_asksize oq) \<and>
         s_bid_ask_spread_pct s =
           (if q_bid oq \<noteq> 0 \<and> q_ask oq \<noteq> 0
            then Some (calculateBidAskSpread (q_bid oq) (q_ask oq)) else None) \<and>
         s_underlying_price s = q_last uq \<and>
         s_underlying_change s = num_or_null (q_change uq) \<and>
         s_underlying_change_pct s = num_or_null (q_change_percentage uq) \<and>
         s_delta s = greek_or_null (q_greeks oq) g_delta \<and>
         s_gamma s = greek_or_null (q_greeks oq) g_gamma \<and>
         s_theta s = greek_or_null (q_greeks oq) g_theta \<and>
         s_vega s = greek_or_null (q_greeks oq) g_vega \<and>
         s_rho s = greek_or_null (q_greeks oq) g_rho \<and>
         s_phi s = greek_or_null (q_greeks oq) g_phi \<and>
         s_implied_volatility s =
           (case greek_or_null (q_greeks oq) g_mid_iv of Some v \<Rightarrow> Some v
            | None \<Rightarrow> greek_or_null (q_greeks oq) g_smv_vol) \<and>
         s_greeks_updated_at s =
           (case q_greeks oq of None \<Rightarrow> None | Some g \<Rightarrow> str_or_null (g_updated_at g)) \<and>
         s_moneyness s =
           Some (js_over (js_round (js_times
             (calculateMoneyness (s_strike s) (q_last uq) (s_option_type s)) 100)) 100) \<and>
         (q_last uq \<noteq> 0 \<longrightarrow>
            s_moneyness s =
              Some (Num (Math_round
                ((if s_option_type s = call then (s_strike s - q_last uq) / q_last uq
                  else (q_last uq - s_strike s) / q_last uq) * 100 * 100) / 100))) \<and>
         s_moneyness_category s =
           Some (categorizeMoneyness (calculateMoneyness (s_strike s) (q_last uq) (s_option_type s))) \<and>
         s_signal_strength s =
           Some (calculateSignalStrength (s_volume s / s_open_interest s)
                   (calculatePremium (q_last oq) (s_volume s) (s_contract_size s))
                   (s_dte s)
                   (calculateMoneyness (s_strike s) (q_last uq) (s_option_type s))) \<and>
         s_detected_at s = None \<and>
         s_trade_date s = num_or_null (q_trade_date oq) \<and>
         s_exchange s = str_or_null (q_exch oq)"
proof -
  from assms obtain e k v oi u ot where
    f: "q_expiration_date oq = Some e" "q_strike oq = Some k" "q_volume oq = Some v"
       "q_open_interest oq = Some oi" "q_underlying oq = Some u" "q_option_type oq = Some ot"
    and g: "0 < oi"
    using analyzeQuote_eq_None_iff [of config calculateDTE oq uq]
    by (auto simp: meetsUnusualCriteria_iff)
  have a: "s_id s = None" "s_symbol s = q_symbol oq" "q_underlying oq = Some (s_ticker s)"
     "s_description s = str_or_null (q_description oq)"
     "q_option_type oq = Some (s_option_type s)" "q_strike oq = Some (s_strike s)"
     "q_expiration_date oq = Some (s_expiration_date s)"
     "s_dte s = calculateDTE (s_expiration_date s)"
     "s_contract_size s = (case q_contract_size oq of None \<Rightarrow> 100 | Some c \<Rightarrow> c)"
     "q_volume oq = Some (s_volume s)" "q_open_interest oq = Some (s_open_interest s)"
    using assms f g
    by (auto simp: analyzeQuote_def Let_def split: if_splits)
  have b: "s_volume_oi_ratio s = Math_round (s_volume s / s_open_interest s * 100) / 100"
     "s_premium s =
           Math_round (calculatePremium (q_last oq) (s_volume s) (s_contract_size s) * 100) / 100"
    using assms f g
    by (auto simp: analyzeQuote_def Let_def split: if_splits)
  have r: "two_decimals (s_volume_oi_ratio s)" "two_decimals (s_premium s)"
    by (simp_all only: b two_decimals_round)
  have c: "s_last_price s = q_last oq" "s_bid s = num_or_null (q_bid oq)"
     "s_ask s = num_or_null (q_ask oq)" "s_bid_size s = num_or_null (q_bidsize oq)"
     "s_ask_size s = num_or_null (q_asksize oq)"
     "s_bid_ask_spread_pct s =
           (if q_bid oq \<noteq> 0 \<and> q_ask oq \<noteq> 0
            then Some (calculateBidAskSpread (q_bid oq) (q_ask oq)) else None)"
     "s_underlying_price s = q_last uq" "s_underlying_change s = num_or_null (q_change uq)"
     "s_underlying_change_pct s = num_or_null (q_change_percentage uq)"
    using assms f g
    by (auto simp: analyzeQuote_def Let_def split: if_splits)
  have d: "s_delta s = greek_or_null (q_greeks oq) g_delta"
     "s_gamma s = greek_or_null (q_greeks oq) g_gamma"
     "s_theta s = greek_or_null (q_greeks oq) g_theta"
     "s_vega s = greek_or_null (q_greeks oq) g_vega"
     "s_rho s = greek_or_null (q_greeks oq) g_rho"
     "s_phi s = greek_or_null (q_greeks oq) g_phi"
     "s_implied_volatility s =
           (case greek_or_null (q_greeks oq) g_mid_iv of Some v \<Rightarrow> Some v
            | None \<Rightarrow> greek_or_null (q_greeks oq) g_smv_vol)"
     "s_greeks_updated_at s =
           (case q_greeks oq of None \<Rightarrow> None | Some g \<Rightarrow> str_or_null (g_updated_at g))"
    using assms f g
    by (auto simp: analyzeQuote_def Let_def split: if_splits)
  have m: "s_moneyness s =
           Some (js_over (js_round (js_times
             (calculateMoneyness (s_strike s) (q_last uq) (s_option_type s)) 100)) 100)"
    using assms f g
    by (auto simp: analyzeQuote_def Let_def split: if_splits)
  have n: "s_moneyness s =
              Some (Num (Math_round
                ((if s_option_type s = call then (s_strike s - q_last uq) / q_last uq
                  else (q_last uq - s_strike s) / q_last uq) * 100 * 100) / 100))"
    if "q_last uq \<noteq> 0"
    unfolding m using moneyness_rounded [OF that] by simp
  have h: "s_moneyness_category s =
           Some (categorizeMoneyness (calculateMoneyness (s_strike s) (q_last uq) (s_option_type s)))"
     "s_signal_strength s =
           Some (calculateSignalStrength (s_volume s / s_open_interest s)
                   (calculatePremium (q_last oq) (s_volume s) (s_contract_size s))
                   (s_dte s)
                   (calculateMoneyness (s_strike s) (q_last uq) (s_option_type s)))"
     "s_detected_at s = None" "s_trade_date s = num_or_null (q_trade_date oq)"
     "s_exchange s = str_or_null (q_exch oq)"
    using assms f g
    by (auto simp: analyzeQuote_def Let_def split: if_splits)
  from a b r c d m n h show ?thesis
    by (intro conjI impI)
qed

theorem analyzeQuote_rounding_witness:
  "two_decimals (s_premium (stored_signal\<lparr>s_id := None, s_detected_at := None\<rparr>)) \<and>
   two_decimals (s_volume_oi_ratio (stored_signal\<lparr>s_id := None, s_detected_at := None\<rparr>)) \<and>
   s_moneyness (stored_signal\<lparr>s_id := None, s_detected_at := None\<rparr>) = Some (Num 2.94) \<and>
   s_last_price (stored_signal\<lparr>s_id := None, s_detected_at := None\<rparr>) = q_last example_option"
proof -
  let ?s = "stored_signal\<lparr>s_id := None, s_detected_at := None\<rparr>"
  have u: "q_last example_underlying \<noteq> 0"
    by (simp add: example_underlying_def)
  note t = analyzeQuote_rounding [OF example_option_accepted]
  from t have 1: "two_decimals (s_premium ?s)" by blast
  from t have 2: "two_decimals (s_volume_oi_ratio ?s)" by blast
  from t have 3: "s_last_price ?s = q_last example_option" by blast
  from t u have "s_moneyness ?s =
      Some (Num (Math_round
        ((if s_option_type ?s = call
          then (s_strike ?s - q_last example_underlying) / q_last example_underlying
          else (q_last example_underlying - s_strike ?s) / q_last example_underlying)
         * 100 * 100) / 100))"
    by blast
  then have 4: "s_moneyness ?s = Some (Num 2.94)"
    by (simp add: stored_signal_def example_underlying_def Math_round_def)
  from 1 2 3 4 show ?thesis by blast
qed

section \<open>Exiting a trade\<close>

text \<open>
  C2, as stated, fails: \<open>exitTrade\<close> on a trade that is already closed (by hand, at
  3.00) reports no error and does not leave the trade as it was; it returns the trade
  with the exit price, time, underlying price, reason and P/L overwritten.
\<close>

theorem exitTrade_closed_counterexample:
  "t_status closed_trade = status_closed \<and>
   t_exit_reason closed_trade = Some reason_manual \<and>
   exitTrade [closed_trade] 2000 closed_trade 1 165 reason_time_limit =
     (Some (closed_trade\<lparr>t_exit_price := Some 1, t_exit_time := Some 2000,
              t_exit_underlying_price := Some 165, t_exit_reason := Some reason_time_limit,
              t_pnl := Some (- 100), t_pnl_pct := Some (Num (- 50)),
              t_updated_at := Some 2000\<rparr>),
      [closed_trade\<lparr>t_exit_price := Some 1, t_exit_time := Some 2000,
              t_exit_underlying_price := Some 165, t_exit_reason := Some reason_time_limit,
              t_pnl := Some (- 100), t_pnl_pct := Some (Num (- 50)),
              t_updated_at := Some 2000\<rparr>])"
  by (simp add: exitTrade_def updatePaperTrade_def closed_trade_def open_trade_def
      calculatePnL_def js_div_def Math_round_def Let_def)

text \<open>
  C2, amended. \<open>exitTrade\<close> does not look at the status of the trade. For every trade
  whose id names one row of the table, whatever the status of the trade and of the row,
  it returns that row with the exit price, exit time, exit underlying price, exit reason
  and the P/L of the new exit price written over the former values and with status
  closed, and the table holds the returned row in place of the old one.
\<close>

theorem exitTrade_overwrites:
  assumes "t_id trade = Some tradeId"
    and "filter (\<lambda>t. t_id t = Some tradeId) st = [row]"
  shows "exitTrade st now trade exitPrice underlyingPrice reason =
           (Some (row\<lparr>t_exit_price := Some exitPrice,
                      t_exit_time := Some now,
                      t_exit_underlying_price := Some underlyingPrice,
                      t_exit_reason := Some reason,
                      t_pnl := Some (r_pnl (calculatePnL (t_entry_price trade) exitPrice
                                 (t_quantity trade) 100)),
                      t_pnl_pct := Some (r_pnlPct (calculatePnL (t_entry_price trade) exitPrice
                                 (t_quantity trade) 100)),
                      t_status := status_closed,
                      t_updated_at := Some now\<rparr>),
            map (\<lambda>r. if t_id r = Some tradeId
                      then row\<lparr>t_exit_price := Some exitPrice,
                      t_exit_time := Some now,
                      t_exit_underlying_price := Some underlyingPrice,
                      t_exit_reason := Some reason,
                      t_pnl := Some (r_pnl (calculatePnL (t_entry_price trade) exitPrice
                                 (t_quantity trade) 100)),
                      t_pnl_pct := Some (r_pnlPct (calculatePnL (t_entry_price trade) exitPrice
                                 (t_quantity trade) 100)),
                      t_status := status_closed,
                      t_updated_at := Some now\<rparr>
                      else r) st)"
  using assms by (simp add: exitTrade_def updatePaperTrade_def Let_def)

theorem exitTrade_overwrites_witness:
  "map_option t_exit_reason
     (fst (exitTrade [closed_trade] 2000 closed_trade 1 165 reason_time_limit)) =
     Some (Some reason_time_limit) \<and>
   map_option t_pnl
     (fst (exitTrade [closed_trade] 2000 closed_trade 1 165 reason_time_limit)) =
     Some (Some (- 100)) \<and>
   map_option t_status
     (fst (exitTrade [closed_trade] 2000 closed_trade 1 165 reason_time_limit)) =
     Some status_closed"
proof -
  have a: "t_id closed_trade = Some ''t1''"
    by (simp add: closed_trade_def open_trade_def)
  have b: "filter (\<lambda>t. t_id t = Some ''t1'') [closed_trade] = [closed_trade]"
    by (simp add: a)
  have e: "t_entry_price closed_trade = 2" "t_quantity closed_trade = 1"
    by (simp_all add: closed_trade_def open_trade_def)
  have c: "calculatePnL 2 1 1 100 = \<lparr>r_pnl = - 100, r_pnlPct = Num (- 50)\<rparr>"
    by (simp add: calculatePnL_def js_div_def Math_round_def)
  show ?thesis
    using exitTrade_overwrites [OF a b, of 2000 1 165 reason_time_limit]
    by (simp add: e c)
qed

section \<open>Entering a trade\<close>

lemma getTradeBySignalId_single:
  "filter (\<lambda>t. t_signal_id t = sid) st = [t] \<Longrightarrow> getTradeBySignalId st sid = Some t"
  by (simp add: getTradeBySignalId_def)

lemma getTradeBySignalId_SomeD:
  "getTradeBySignalId st sid = Some t \<Longrightarrow> filter (\<lambda>t. t_signal_id t = sid) st = [t]"
  by (auto simp: getTradeBySignalId_def split: list.splits)

lemma createPaperTrade_SomeD:
  assumes "createPaperTrade st newId now trade = Some (row, st')"
  shows "st' = st @ [row]" and "t_signal_id row = t_signal_id trade"
    and "filter (\<lambda>t. t_signal_id t = t_signal_id trade) st = []"
proof -
  from assms have e: "filter (\<lambda>t. t_id t = Some newId \<or> t_signal_id t = t_signal_id trade) st = []"
    and r: "row = trade\<lparr>t_id := Some newId, t_entry_time := Some now,
                           t_created_at := Some now, t_updated_at := Some now\<rparr>"
    and s: "st' = st @ [row]"
    by (auto simp: createPaperTrade_def Let_def split: if_splits)
  show "st' = st @ [row]" by (fact s)
  show "t_signal_id row = t_signal_id trade" by (simp add: r)
  from e show "filter (\<lambda>t. t_signal_id t = t_signal_id trade) st = []"
    by (auto simp: filter_empty_conv)
qed

text \<open>
  C8. For a signal that has a (non-empty) identity, on a table that holds at most one
  trade for the signal and in which the new id is not taken, \<open>enterTrade\<close> returns a
  trade, and calling it again for the same signal on the resulting table returns the same
  trade and leaves the table unchanged; the table then holds exactly one trade for that
  signal. If the table held no trade for the signal, the first call appended the trade,
  open and under the new id; otherwise it changed nothing.
\<close>

theorem enterTrade_idempotent:
  assumes "s_id signal = Some sid" and "sid \<noteq> []"
    and "filter (\<lambda>t. t_id t = Some id1) st = []"
    and "length (filter (\<lambda>t. t_signal_id t = sid) st) \<le> 1"
  shows "\<exists>trade st1.
           enterTrade config id1 now1 st signal = (Some trade, st1) \<and>
           enterTrade config id2 now2 st1 signal = (Some trade, st1) \<and>
           filter (\<lambda>t. t_signal_id t = sid) st1 = [trade] \<and>
           (if filter (\<lambda>t. t_signal_id t = sid) st = []
            then st1 = st @ [trade] \<and> t_id trade = Some id1 \<and> t_status trade = status_open
            else st1 = st)"
proof (cases "filter (\<lambda>t. t_signal_id t = sid) st")
  case Nil
  then have n: "getTradeBySignalId st sid = None"
    by (simp add: getTradeBySignalId_def)
  from Nil assms(3) have e: "filter (\<lambda>t. t_id t = Some id1 \<or> t_signal_id t = sid) st = []"
    by (auto simp: filter_empty_conv)
  from assms(1,2) n e obtain trade where
    1: "enterTrade config id1 now1 st signal = (Some trade, st @ [trade])" and
    2: "t_signal_id trade = sid" "t_id trade = Some id1" "t_status trade = status_open"
    by (simp add: enterTrade_def createPaperTrade_def Let_def)
  from Nil 2 have f: "filter (\<lambda>t. t_signal_id t = sid) (st @ [trade]) = [trade]"
    by simp
  then have "getTradeBySignalId (st @ [trade]) sid = Some trade"
    by (rule getTradeBySignalId_single)
  with assms(1,2) have "enterTrade config id2 now2 (st @ [trade]) signal = (Some trade, st @ [trade])"
    by (simp add: enterTrade_def)
  with 1 2 f Nil show ?thesis by auto
next
  case (Cons existing rest)
  with assms(4) have f: "filter (\<lambda>t. t_signal_id t = sid) st = [existing]"
    by simp
  then have "getTradeBySignalId st sid = Some existing"
    by (rule getTradeBySignalId_single)
  with assms(1,2) have "enterTrade config i n st signal = (Some existing, st)" for i n
    by (simp add: enterTrade_def)
  with f show ?thesis by auto
qed

lemma enterTrade_stored_signal:
  "enterTrade default_config ''t1'' 0 [] stored_signal =
     (Some (open_trade\<lparr>t_entry_price := 12.35,
              t_notes := Some ''Auto-entered from medium strength signal''\<rparr>),
      [open_trade\<lparr>t_entry_price := 12.35,
              t_notes := Some ''Auto-entered from medium strength signal''\<rparr>])"
  by (simp add: enterTrade_def getTradeBySignalId_def createPaperTrade_def stored_signal_def
      default_config_def calculateMidPrice_def open_trade_def strength_text_def Let_def)

theorem enterTrade_idempotent_witness:
  "enterTrade default_config ''t1'' 0 [] stored_signal =
     (Some (open_trade\<lparr>t_entry_price := 12.35,
              t_notes := Some ''Auto-entered from medium strength signal''\<rparr>),
      [open_trade\<lparr>t_entry_price := 12.35,
              t_notes := Some ''Auto-entered from medium strength signal''\<rparr>]) \<and>
   enterTrade default_config ''t2'' 5000
     [open_trade\<lparr>t_entry_price := 12.35,
              t_notes := Some ''Auto-entered from medium strength signal''\<rparr>] stored_signal =
     (Some (open_trade\<lparr>t_entry_price := 12.35,
              t_notes := Some ''Auto-entered from medium strength signal''\<rparr>),
      [open_trade\<lparr>t_entry_price := 12.35,
              t_notes := Some ''Auto-entered from medium strength signal''\<rparr>])"
proof -
  have a: "s_id stored_signal = Some ''s1''"
    by (simp add: stored_signal_def)
  have b: "''s1'' \<noteq> []"
    by simp
  have c: "filter (\<lambda>t. t_id t = Some ''t1'') [] = []"
    by simp
  have d: "length (filter (\<lambda>t. t_signal_id t = ''s1'') []) \<le> 1"
    by simp
  from enterTrade_idempotent [OF a b c d, of default_config 0 "''t2''" 5000]
  obtain trade st1 where
    1: "enterTrade default_config ''t1'' 0 [] stored_signal = (Some trade, st1)" and
    2: "enterTrade default_config ''t2'' 5000 st1 stored_signal = (Some trade, st1)"
    by blast
  from 1 have t: "trade = open_trade\<lparr>t_entry_price := 12.35,
              t_notes := Some ''Auto-entered from medium strength signal''\<rparr> \<and>
    st1 = [open_trade\<lparr>t_entry_price := 12.35,
              t_notes := Some ''Auto-entered from medium strength signal''\<rparr>]"
    unfolding enterTrade_stored_signal by auto
  from 2 t have "enterTrade default_config ''t2'' 5000
     [open_trade\<lparr>t_entry_price := 12.35,
              t_notes := Some ''Auto-entered from medium strength signal''\<rparr>] stored_signal =
     (Some (open_trade\<lparr>t_entry_price := 12.35,
              t_notes := Some ''Auto-entered from medium strength signal''\<rparr>),
      [open_trade\<lparr>t_entry_price := 12.35,
              t_notes := Some ''Auto-entered from medium strength signal''\<rparr>])"
    by simp
  with enterTrade_stored_signal show ?thesis
    by (rule conjI)
qed

lemma negative_bid_option_accepted:
  "analyzeQuote default_signal_config example_dte negative_bid_option example_underlying =
     Some (stored_signal\<lparr>s_id := None, s_detected_at := None, s_bid := Some (- 1),
             s_ask := Some 1, s_bid_ask_spread_pct := Some 0\<rparr>)"
  by (simp add: analyzeQuote_def meetsUnusualCriteria_def default_signal_config_def
      example_dte_def example_option_def example_underlying_def calculatePremium_def Let_def
      Math_round_def stored_signal_def calculateMoneyness_def js_div_def
      categorizeMoneyness_def calculateSignalStrength_def calculateBidAskSpread_def
      num_or_null_def str_or_null_def greek_or_null_def negative_bid_option_def)

lemma unpriced_option_accepted:
  "analyzeQuote no_premium_config example_dte unpriced_option example_underlying =
     Some (stored_signal\<lparr>s_id := None, s_detected_at := None, s_bid := None,
             s_ask := None, s_bid_ask_spread_pct := None, s_last_price := 0, s_premium := 0,
             s_signal_strength := Some low\<rparr>)"
  by (simp add: analyzeQuote_def meetsUnusualCriteria_def default_signal_config_def
      example_dte_def example_option_def example_underlying_def calculatePremium_def Let_def
      Math_round_def stored_signal_def calculateMoneyness_def js_div_def
      categorizeMoneyness_def calculateSignalStrength_def calculateBidAskSpread_def
      num_or_null_def str_or_null_def greek_or_null_def unpriced_option_def no_premium_config_def)

lemma calculatePnL_zero_entry_not_finite:
  "\<not> is_finite (r_pnlPct (calculatePnL 0 exitPrice quantity contractSize))"
  by (simp add: calculatePnL_zero_entry)

text \<open>
  C10. \<open>enterTrade\<close> does not enforce a positive entry price. The detector accepts the
  example contract quoted with bid -1 and ask 1 and, when the minimum premium is 0, the
  contract quoted with last price, bid and ask 0 (stored as a signal with bid and ask
  absent). For each of the two signals, once stored, \<open>enterTrade\<close> on an empty table
  creates an open trade whose entry price is 0, and for that trade \<open>calculatePnL\<close> yields
  a percentage that is not a finite number at every current price.
\<close>

theorem enterTrade_zero_entry_price:
  "(\<exists>s trade.
      analyzeQuote default_signal_config example_dte negative_bid_option example_underlying =
        Some s \<and>
      s_bid s = Some (- 1) \<and> s_ask s = Some 1 \<and>
      enterTrade default_config ''t1'' 0 [] (s\<lparr>s_id := Some ''s1''\<rparr>) = (Some trade, [trade]) \<and>
      t_status trade = status_open \<and> t_entry_price trade = 0 \<and>
      (\<forall>price. \<not> is_finite (r_pnlPct
          (calculatePnL (t_entry_price trade) price (t_quantity trade) 100)))) \<and>
   (\<exists>s trade.
      analyzeQuote no_premium_config example_dte unpriced_option example_underlying = Some s \<and>
      s_bid s = None \<and> s_ask s = None \<and> s_last_price s = 0 \<and>
      enterTrade default_config ''t1'' 0 [] (s\<lparr>s_id := Some ''s1''\<rparr>) = (Some trade, [trade]) \<and>
      t_status trade = status_open \<and> t_entry_price trade = 0 \<and>
      (\<forall>price. \<not> is_finite (r_pnlPct
          (calculatePnL (t_entry_price trade) price (t_quantity trade) 100))))"
proof (intro conjI)
  let ?t = "open_trade\<lparr>t_entry_price := 0,
              t_notes := Some ''Auto-entered from medium strength signal''\<rparr>"
  let ?s = "stored_signal\<lparr>s_id := None, s_detected_at := None, s_bid := Some (- 1),
             s_ask := Some 1, s_bid_ask_spread_pct := Some 0\<rparr>"
  have "enterTrade default_config ''t1'' 0 [] (?s\<lparr>s_id := Some ''s1''\<rparr>) = (Some ?t, [?t])"
    by (simp add: enterTrade_def getTradeBySignalId_def createPaperTrade_def stored_signal_def
      default_config_def calculateMidPrice_def open_trade_def strength_text_def Let_def)
  moreover have "s_bid ?s = Some (- 1)" "s_ask ?s = Some 1"
    by simp_all
  moreover have "t_status ?t = status_open" "t_entry_price ?t = 0"
    by (simp_all add: open_trade_def)
  ultimately show "\<exists>s trade.
      analyzeQuote default_signal_config example_dte negative_bid_option example_underlying =
        Some s \<and>
      s_bid s = Some (- 1) \<and> s_ask s = Some 1 \<and>
      enterTrade default_config ''t1'' 0 [] (s\<lparr>s_id := Some ''s1''\<rparr>) = (Some trade, [trade]) \<and>
      t_status trade = status_open \<and> t_entry_price trade = 0 \<and>
      (\<forall>price. \<not> is_finite (r_pnlPct
          (calculatePnL (t_entry_price trade) price (t_quantity trade) 100)))"
    using negative_bid_option_accepted calculatePnL_zero_entry_not_finite by metis
next
  let ?t = "open_trade\<lparr>t_entry_price := 0,
              t_notes := Some ''Auto-entered from low strength signal''\<rparr>"
  let ?s = "stored_signal\<lparr>s_id := None, s_detected_at := None, s_bid := None,
             s_ask := None, s_bid_ask_spread_pct := None, s_last_price := 0, s_premium := 0,
             s_signal_strength := Some low\<rparr>"
  have "enterTrade default_config ''t1'' 0 [] (?s\<lparr>s_id := Some ''s1''\<rparr>) = (Some ?t, [?t])"
    by (simp add: enterTrade_def getTradeBySignalId_def createPaperTrade_def stored_signal_def
      default_config_def calculateMidPrice_def open_trade_def strength_text_def Let_def)
  moreover have "s_bid ?s = None" "s_ask ?s = None" "s_last_price ?s = 0"
    by simp_all
  moreover have "t_status ?t = status_open" "t_entry_price ?t = 0"
    by (simp_all add: open_trade_def)
  ultimately show "\<exists>s trade.
      analyzeQuote no_premium_config example_dte unpriced_option example_underlying = Some s \<and>
      s_bid s = None \<and> s_ask s = None \<and> s_last_price s = 0 \<and>
      enterTrade default_config ''t1'' 0 [] (s\<lparr>s_id := Some ''s1''\<rparr>) = (Some trade, [trade]) \<and>
      t_status trade = status_open \<and> t_entry_price trade = 0 \<and>
      (\<forall>price. \<not> is_finite (r_pnlPct
          (calculatePnL (t_entry_price trade) price (t_quantity trade) 100)))"
    using unpriced_option_accepted calculatePnL_zero_entry_not_finite by metis
qed

section \<open>Monitoring\<close>

text \<open>
  The expression that \<open>updateTrade\<close> stores as running maximum and minimum, by the
  stored value; and \<open>updateTrade\<close> changes no status.
\<close>

lemma running_extremum_cases:
  "max (num_or None p) p = p"
  "max (num_or (Some 0) p) p = p"
  "m \<noteq> 0 \<Longrightarrow> max (num_or (Some m) p) p = max m p"
  "min (num_or None p) p = p"
  "min (num_or (Some 0) p) p = p"
  "m \<noteq> 0 \<Longrightarrow> min (num_or (Some m) p) p = min m p"
  by (simp_all add: num_or_def)

lemma updatePaperTrade_status:
  assumes "updatePaperTrade st now tradeId updates = Some (row, st')"
    and "\<And>t. t_status (updates t) = t_status t"
  shows "map t_status st' = map t_status st"
proof -
  from assms(1) obtain t where
    f: "filter (\<lambda>t. t_id t = Some tradeId) st = [t]" and
    r: "row = (updates t)\<lparr>t_updated_at := Some now\<rparr>" and
    s: "st' = map (\<lambda>r. if t_id r = Some tradeId then row else r) st"
    by (auto simp: updatePaperTrade_def Let_def split: list.splits)
  have "x = t" if "x \<in> set st" "t_id x = Some tradeId" for x
  proof -
    from that have "x \<in> set (filter (\<lambda>t. t_id t = Some tradeId) st)" by simp
    with f show ?thesis by simp
  qed
  then have "t_status (if t_id x = Some tradeId then row else x) = t_status x"
    if "x \<in> set st" for x
    using that r assms(2) by auto
  then show ?thesis
    by (simp add: s)
qed

lemma updateTrade_status:
  "map t_status (updateTrade st now trade currentPrice underlyingPrice) = map t_status st"
proof (cases "t_id trade")
  case None
  then show ?thesis by (simp add: updateTrade_def Let_def)
next
  case (Some tradeId)
  show ?thesis
    using Some
    by (auto simp: updateTrade_def Let_def split: option.splits
        intro!: updatePaperTrade_status)
qed

text \<open>
  The two exit rules of the pass are not alternatives. Over a table in which the signal
  was stored with an empty ticker, so that the pass finds it, a pass over the open trade
  that is past the time limit and whose contract has expired makes two exits, first with
  reason \<open>time_limit\<close> and then with reason \<open>expired\<close>, and the trade ends closed with
  exit reason \<open>expired\<close>.
\<close>

lemma monitorOpenTrades_blank_ticker:
  "snd (monitorOpenTrades default_config blank_ticker_env [open_trade]) =
     [(Some ''t1'', reason_time_limit), (Some ''t1'', reason_expired)]"
  "map t_status (fst (monitorOpenTrades default_config blank_ticker_env [open_trade])) =
     [status_closed]"
  "map t_exit_reason (fst (monitorOpenTrades default_config blank_ticker_env [open_trade])) =
     [Some reason_expired]"
  by (simp_all add: monitorOpenTrades_def getOpenTrades_def monitorTrade_def exit_logged_def
      getSignalsByTicker_def detected_ms_def
      exitTrade_def updateTrade_def updatePaperTrade_def blank_ticker_env_def stored_signal_def
      open_trade_def example_option_def default_config_def
      calculateMidPrice_def calculatePnL_def js_div_def Math_round_def num_or_def jsnum_or_def
      entry_ms_def Let_def)

text \<open>
  C9. In the source a stored extremum of exactly 0 is treated as absent. A first pass
  that sees the entry price stores 0 as maximum and minimum P/L. A second pass at 1.50
  (P/L -50) then stores -50 as the maximum, below the stored 0; a second pass at 2.50
  (P/L 50) stores 50 as the minimum, above the stored 0. The status stays open.
\<close>

theorem updateTrade_zero_extremum:
  "updateTrade [open_trade] 1000 open_trade 2 170 = [flat_trade] \<and>
   t_max_pnl flat_trade = Some 0 \<and>
   t_min_pnl flat_trade = Some 0 \<and>
   map t_max_pnl (updateTrade [flat_trade] 2000 flat_trade 1.5 170) = [Some (- 50)] \<and>
   map t_min_pnl (updateTrade [flat_trade] 2000 flat_trade 2.5 170) = [Some 50] \<and>
   map t_status (updateTrade [flat_trade] 2000 flat_trade 1.5 170) = [status_open]"
  by (simp add: updateTrade_def updatePaperTrade_def flat_trade_def open_trade_def
      calculatePnL_def js_div_def Math_round_def num_or_def jsnum_or_def Let_def)

text \<open>
  C3. In the source the pass asks \<open>getSignalsByTicker\<close> for the signals of the empty
  ticker, so the signal of a trade on NVDA is not among them and the trade is skipped.
  One pass over the open trade that is past the time limit and whose contract has
  expired, with the signal stored and both symbols quoted, makes no exit and leaves the
  trade as it was: open, with no exit reason.
\<close>

theorem monitorOpenTrades_signal_not_found:
  "getSignalsByTicker (m_unusual_signals expired_env) [] 1000 = [] \<and>
   monitorOpenTrades default_config expired_env [open_trade] = ([open_trade], []) \<and>
   t_status open_trade = status_open \<and>
   t_exit_reason open_trade = None \<and>
   t_entry_time open_trade = Some 0 \<and>
   real_of_int (m_now expired_env - 0) / (1000 * 60 * 60) \<ge> timeLimitHours default_config \<and>
   m_date_ms expired_env (s_expiration_date stored_signal) = Some 1000 \<and>
   (1000 - m_now expired_env) div (1000 * 60 * 60 * 24) \<le> 0"
  by (simp add: monitorOpenTrades_def getOpenTrades_def monitorTrade_def
      getSignalsByTicker_def expired_env_def stored_signal_def
      open_trade_def default_config_def entry_ms_def Let_def)

section \<open>Performance statistics\<close>

lemma performance_of_empty:
  "performance_of [] =
     \<lparr>totalTrades = 0, openTrades = 0, closedTrades = 0, winningTrades = 0, losingTrades = 0,
      winRate = 0, totalPnL = 0, avgPnL = 0, bestTrade = 0, worstTrade = 0\<rparr>"
  by (simp add: performance_of_def getPerformanceStats_def performance_summary_def
      num_or_def Let_def)

text \<open>
  C5. For three closed trades with P/L 100, -50 and 0, the statistics report one
  winning and one losing trade, a win rate of 33.33 and a total P/L of 50, but two closed
  trades and one open trade: the trade with P/L 0 is not counted as closed.
\<close>

theorem performance_of_breakeven:
  "performance_of [won_trade, lost_trade, even_trade] =
     \<lparr>totalTrades = 3, openTrades = 1, closedTrades = 2, winningTrades = 1, losingTrades = 1,
      winRate = 33.33, totalPnL = 50, avgPnL = 16.67, bestTrade = 100, worstTrade = - 50\<rparr>"
  by (simp add: performance_of_def getPerformanceStats_def performance_summary_def
      closed_pnl_def sql_round2_def won_trade_def lost_trade_def even_trade_def
      closed_trade_def open_trade_def num_or_def Let_def)

end
